theory Spec2Isabelle
  imports Main
begin

section \<open>JavaScript values\<close>

text \<open>
  The controller \<^verbatim>\<open>src/controllers/auth.js\<close> is untyped JavaScript: requests, option
  records, user records, errors and responses are plain values.  They are modelled by one
  datatype.  An object is an association list from property names to values (the first
  binding of a name is the one read); the property names the controller reads are none
  of those inherited from a prototype.
\<close>

datatype jsval =
    Undefined
  | Null
  | Bool bool
  | Num int
  | Str string
  | Obj "(string \<times> jsval) list"

fun typeof :: "jsval \<Rightarrow> string" where
  "typeof Undefined = ''undefined''"
| "typeof Null = ''object''"
| "typeof (Bool b) = ''boolean''"
| "typeof (Num n) = ''number''"
| "typeof (Str s) = ''string''"
| "typeof (Obj fs) = ''object''"

text \<open>Truthiness, as used by \<^verbatim>\<open>!x\<close>, \<^verbatim>\<open>&&\<close>, \<^verbatim>\<open>||\<close> and \<^verbatim>\<open>? :\<close>.\<close>

fun truthy :: "jsval \<Rightarrow> bool" where
  "truthy Undefined = False"
| "truthy Null = False"
| "truthy (Bool b) = b"
| "truthy (Num n) = (n \<noteq> 0)"
| "truthy (Str s) = (s \<noteq> [])"
| "truthy (Obj fs) = True"

text \<open>
  A thrown value is a JavaScript value.  A result is \<open>Inl\<close> of the thrown value (for an
  async function: the rejection of its promise) or \<open>Inr\<close> of the returned value.
\<close>

definition TypeError :: "string \<Rightarrow> jsval" where
  "TypeError msg = Obj [(''name'', Str ''TypeError''), (''message'', Str msg)]"

text \<open>Property read \<^verbatim>\<open>v.k\<close>: throws on \<^verbatim>\<open>undefined\<close> and \<^verbatim>\<open>null\<close>.\<close>

fun js_get :: "jsval \<Rightarrow> string \<Rightarrow> jsval + jsval" where
  "js_get Undefined k = Inl (TypeError (''Cannot read properties of undefined (reading '' @ k @ '')''))"
| "js_get Null k = Inl (TypeError (''Cannot read properties of null (reading '' @ k @ '')''))"
| "js_get (Obj fs) k = Inr (case map_of fs k of None \<Rightarrow> Undefined | Some v \<Rightarrow> v)"
| "js_get (Bool b) k = Inr Undefined"
| "js_get (Num n) k = Inr Undefined"
| "js_get (Str s) k = Inr Undefined"

text \<open>
  A string is the list of its code units, one \<open>char\<close> each: the strings of the model are
  those whose code units are at most U+00FF (ASCII and Latin-1).  On these,
  \<^verbatim>\<open>String.prototype.toLowerCase\<close> works code unit by code unit: the capital letters
  U+0041 to U+005A (A to Z), U+00C0 to U+00D6 and U+00D8 to U+00DE (the capital letters
  of Latin-1) are mapped to the code unit 32 higher, and every other code unit is kept,
  among them U+00D7 (the multiplication sign), U+00DF (the sharp s) and U+00FF.
\<close>

definition is_upper_code :: "nat \<Rightarrow> bool" where
  "is_upper_code n =
     ((65 \<le> n \<and> n \<le> 90) \<or> (192 \<le> n \<and> n \<le> 214) \<or> (216 \<le> n \<and> n \<le> 222))"

definition lower_char :: "char \<Rightarrow> char" where
  "lower_char c = (if is_upper_code (of_char c) then char_of (of_char c + (32::nat)) else c)"

text \<open>The method call \<^verbatim>\<open>v.toLowerCase()\<close> on an arbitrary value.\<close>

fun toLowerCase :: "jsval \<Rightarrow> jsval + jsval" where
  "toLowerCase (Str s) = Inr (Str (map lower_char s))"
| "toLowerCase Undefined = Inl (TypeError ''Cannot read properties of undefined (reading toLowerCase)'')"
| "toLowerCase Null = Inl (TypeError ''Cannot read properties of null (reading toLowerCase)'')"
| "toLowerCase (Bool b) = Inl (TypeError ''userEmail.toLowerCase is not a function'')"
| "toLowerCase (Num n) = Inl (TypeError ''userEmail.toLowerCase is not a function'')"
| "toLowerCase (Obj fs) = Inl (TypeError ''userEmail.toLowerCase is not a function'')"

text \<open>Decimal printing, for template literals.\<close>

definition digit_char :: "nat \<Rightarrow> char" where
  "digit_char d = char_of (48 + d)"

function show_nat :: "nat \<Rightarrow> string" where
  "show_nat n = (if n < 10 then [digit_char n] else show_nat (n div 10) @ [digit_char (n mod 10)])"
  by pat_completeness auto
termination
  by (relation "measure id") auto

declare show_nat.simps [simp del]

text \<open>The interpolation \<^verbatim>\<open>${v}\<close> of a template literal.\<close>

fun template :: "jsval \<Rightarrow> string" where
  "template Undefined = ''undefined''"
| "template Null = ''null''"
| "template (Bool b) = (if b then ''true'' else ''false'')"
| "template (Num n) = (if n < 0 then ''-'' @ show_nat (nat (- n)) else show_nat (nat n))"
| "template (Str s) = s"
| "template (Obj fs) = ''[object Object]''"

text \<open>A variable of \<^verbatim>\<open>process.env\<close> is a string or absent.\<close>

fun template_env :: "string option \<Rightarrow> string" where
  "template_env None = ''undefined''"
| "template_env (Some s) = s"

text \<open>\<^verbatim>\<open>Array.prototype.join\<close> on an array of strings.\<close>

fun join :: "string list \<Rightarrow> string \<Rightarrow> string" where
  "join [] sep = []"
| "join [x] sep = x"
| "join (x # y # ys) sep = x @ sep @ join (y # ys) sep"


section \<open>Collaborators and the world\<close>

text \<open>
  The controller calls code that is not part of it: the user store
  (\<^verbatim>\<open>DynamoDB.users.getUser\<close>), the HTTP client (\<^verbatim>\<open>axios.post\<close>), the token library
  (\<^verbatim>\<open>jwt.sign\<close>, \<^verbatim>\<open>jwt.decode\<close>), the string form of an error (\<^verbatim>\<open>error.toString()\<close>) and
  the process environment.  They are parameters of the model.  The store has a state of
  an arbitrary type \<open>'s\<close>; \<open>getUser\<close> returns the state it leaves behind, so that nothing
  about the store being read-only is built into the model.  \<open>sign\<close> takes the payload, the
  secret, the \<^verbatim>\<open>expiresIn\<close> option in seconds and the time of the call in seconds.
\<close>

record 's env =
  getUser :: "'s \<Rightarrow> jsval \<Rightarrow> jsval \<Rightarrow> (jsval + jsval) \<times> 's"
  post :: "string \<Rightarrow> string \<Rightarrow> jsval + jsval"
  sign :: "jsval \<Rightarrow> string option \<Rightarrow> nat \<Rightarrow> nat \<Rightarrow> jsval + jsval"
  decode :: "jsval \<Rightarrow> jsval + jsval"
  toString :: "jsval \<Rightarrow> jsval"
  JWT_SECRET :: "string option"
  GOOGLE_SECRET :: "string option"
  AZURE_CLIENT_ID :: "string option"
  AZURE_CLIENT_SECRET :: "string option"

text \<open>What a call leaves behind: the calls made to the collaborators, in order.\<close>

datatype event =
    RelayLogError string jsval
  | AxiosPost string string
  | GetUser jsval jsval
  | JwtSign jsval "string option" nat

record 's world =
  store :: 's
  events :: "event list"
  clock :: nat

definition emit :: "event \<Rightarrow> 's world \<Rightarrow> 's world" where
  "emit e w = w\<lparr>events := events w @ [e]\<rparr>"


section \<open>The controller\<close>

text \<open>
  Sequencing: an expression that throws ends the function with the thrown value and the
  world as it is; otherwise the function goes on with the value.
\<close>

definition or_throw ::
  "'w \<Rightarrow> jsval + 'a \<Rightarrow> ('a \<Rightarrow> (jsval + 'b) \<times> 'w) \<Rightarrow> (jsval + 'b) \<times> 'w" where
  "or_throw w r f = (case r of Inl e \<Rightarrow> (Inl e, w) | Inr v \<Rightarrow> f v)"

definition JWT_VALID_SECONDS :: nat where
  "JWT_VALID_SECONDS = 14 * 24 * 60 * 60"

definition ONE_HOUR :: nat where
  "ONE_HOUR = 60 * 60"

subsection \<open>handleError\<close>

definition handleError :: "'s env \<Rightarrow> jsval \<Rightarrow> string \<Rightarrow> 's world \<Rightarrow> (jsval + jsval) \<times> 's world" where
  "handleError env error type w =
     (let w1 = emit (RelayLogError (''[Err] auth - '' @ type) error) w;
          plain = (Inr (Obj [(''error'', error), (''type'', Str type)]), w1)
      in if \<not> truthy error then plain
         else or_throw w1 (js_get error ''response'') (\<lambda>response.
           if \<not> truthy response then plain
           else or_throw w1 (js_get response ''data'') (\<lambda>data.
             if \<not> truthy data then plain
             else or_throw w1 (js_get data ''error'') (\<lambda>data_error.
                  or_throw w1 (js_get data ''error_description'') (\<lambda>error_description.
                  (Inr (Obj [(''error'', data_error),
                             (''message'', if truthy error_description
                                           then error_description
                                           else toString env error),
                             (''type'', Str type)]), w1))))))"

subsection \<open>authenticateUser\<close>

text \<open>
  The conditional expression that yields \<^verbatim>\<open>newJWT\<close>: the value of \<^verbatim>\<open>previousJwt\<close> when it
  is truthy, a call of \<^verbatim>\<open>jwt.sign\<close> otherwise.
\<close>

definition newJWT :: "'s env \<Rightarrow> jsval \<Rightarrow> jsval \<Rightarrow> jsval \<Rightarrow> 's world \<Rightarrow> (jsval + jsval) \<times> 's world" where
  "newJWT env previousJwt customerId user w =
     (if truthy previousJwt then (Inr previousJwt, w)
      else or_throw w (js_get user ''email'') (\<lambda>email.
           or_throw w (js_get user ''customer_id'') (\<lambda>customer_id.
           (let payload = Obj [(''data'', Obj [(''cId'', customerId),
                                               (''uEmail'', email),
                                               (''u_cId'', customer_id)])]
            in (sign env payload (JWT_SECRET env) JWT_VALID_SECONDS (clock w),
                emit (JwtSign payload (JWT_SECRET env) JWT_VALID_SECONDS) w)))))"

definition authenticateUser :: "'s env \<Rightarrow> jsval \<Rightarrow> 's world \<Rightarrow> (jsval + jsval) \<times> 's world" where
  "authenticateUser env options w =
     or_throw w (js_get options ''userEmail'') (\<lambda>userEmail.
     or_throw w (js_get options ''password'') (\<lambda>password.
     or_throw w (js_get options ''customerId'') (\<lambda>customerId.
     or_throw w (js_get options ''previousJwt'') (\<lambda>previousJwt.
     or_throw w (js_get options ''redirectUrl'') (\<lambda>redirectUrl.
       (case toLowerCase userEmail of
          Inl error \<Rightarrow> handleError env error ''authenticateUser'' w
        | Inr key \<Rightarrow>
            (case getUser env (store w) key password of
               (Inl error, s) \<Rightarrow>
                 handleError env error ''authenticateUser''
                   (emit (GetUser key password) (w\<lparr>store := s\<rparr>))
             | (Inr user, s) \<Rightarrow>
                 (case newJWT env previousJwt customerId user
                         (emit (GetUser key password) (w\<lparr>store := s\<rparr>)) of
                    (Inl e, w2) \<Rightarrow> (Inl e, w2)
                  | (Inr token, w2) \<Rightarrow>
                      (Inr (Obj [(''jwt'', token),
                                 (''serial'', customerId),
                                 (''user'', user),
                                 (''redirectUrl'', redirectUrl)]), w2)))))))))"

subsection \<open>authChallenge\<close>

definition authChallenge :: "'s env \<Rightarrow> jsval \<Rightarrow> 's world \<Rightarrow> (jsval + jsval) \<times> 's world" where
  "authChallenge env request w =
     (if typeof request = ''undefined''
      then handleError env (Str ''request must be defined'') ''bad params'' w
      else or_throw w (js_get request ''body'') (\<lambda>params.
      if typeof params \<noteq> ''object'' \<or> \<not> truthy params
      then handleError env (Str ''jsonBody required'') ''bad params'' w
      else or_throw w (js_get params ''username'') (\<lambda>username.
      if typeof username = ''undefined''
      then handleError env (Str ''username required'') ''bad params'' w
      else if typeof username \<noteq> ''string''
      then handleError env (Str ''username must be a string'') ''bad params'' w
      else or_throw w (js_get params ''password'') (\<lambda>password.
      if typeof password = ''undefined''
      then handleError env (Str ''password required'') ''bad params'' w
      else if typeof password \<noteq> ''string''
      then handleError env (Str ''password must be a string'') ''bad params'' w
      else or_throw w (js_get request ''normalizedHeaders'') (\<lambda>headers.
           or_throw w (js_get headers ''jwt'') (\<lambda>header_jwt.
           authenticateUser env
             (Obj [(''userEmail'', username), (''password'', password), (''jwt'', header_jwt)])
             w))))))"

subsection \<open>jwtCheck\<close>

definition jwtCheck :: "'s env \<Rightarrow> jsval \<Rightarrow> 's world \<Rightarrow> (jsval + jsval) \<times> 's world" where
  "jwtCheck env request w =
     or_throw w (js_get request ''jwtPayload'') (\<lambda>jwtPayload.
     or_throw w (js_get jwtPayload ''data'') (\<lambda>data.
     or_throw w (js_get data ''uEmail'') (\<lambda>uEmail.
     or_throw w (js_get data ''cId'') (\<lambda>cId.
     or_throw w (js_get request ''normalizedHeaders'') (\<lambda>headers.
     or_throw w (js_get headers ''jwt'') (\<lambda>header_jwt.
     authenticateUser env
       (Obj [(''userEmail'', uEmail), (''customerId'', cId), (''jwt'', header_jwt)])
       w))))))"

subsection \<open>The OAuth callbacks\<close>

definition google_token_url :: string where
  "google_token_url = ''https://accounts.google.com/o/oauth2/token''"

definition azure_token_url :: string where
  "azure_token_url = ''https://login.microsoftonline.com/common/oauth2/token''"

definition google_params :: "'s env \<Rightarrow> jsval \<Rightarrow> jsval \<Rightarrow> string list" where
  "google_params env redirect_url code =
     [''client_id=250992307284-m88p8nub2ormiak916etcu4ke3o850it.apps.googleusercontent.com'',
      ''client_secret='' @ template_env (GOOGLE_SECRET env),
      ''redirect_uri='' @ template redirect_url,
      ''grant_type=authorization_code'',
      ''code='' @ template code]"

definition azure_params :: "'s env \<Rightarrow> jsval \<Rightarrow> jsval \<Rightarrow> string list" where
  "azure_params env redirect_url code =
     [''client_id='' @ template_env (AZURE_CLIENT_ID env),
      ''client_secret='' @ template_env (AZURE_CLIENT_SECRET env),
      ''resource=https://graph.windows.net/'',
      ''redirect_uri='' @ template redirect_url,
      ''grant_type=authorization_code'',
      ''code='' @ template code]"

definition googleOauthCallback :: "'s env \<Rightarrow> jsval \<Rightarrow> 's world \<Rightarrow> (jsval + jsval) \<times> 's world" where
  "googleOauthCallback env request w =
     (if typeof request = ''undefined''
      then handleError env (Str ''request must be defined'') ''bad params'' w
      else or_throw w (js_get request ''body'') (\<lambda>body.
           or_throw w (js_get body ''code'') (\<lambda>code.
      if typeof code \<noteq> ''string''
      then handleError env (Str ''code must be a string'') ''bad params'' w
      else or_throw w (js_get body ''redirect_url'') (\<lambda>redirect_url.
      if typeof redirect_url \<noteq> ''string''
      then handleError env (Str ''redirect_url must be a string'') ''bad params'' w
      else
        (let params = google_params env redirect_url code;
             w1 = emit (AxiosPost google_token_url (join params ''&'')) w
         in case post env google_token_url (join params ''&'') of
              Inl error \<Rightarrow> handleError env error ''googleOauthResponse'' w1
            | Inr googleResponse \<Rightarrow>
                or_throw w1 (js_get googleResponse ''data'') (\<lambda>data.
                or_throw w1 (js_get data ''id_token'') (\<lambda>id_token.
                or_throw w1 (decode env id_token) (\<lambda>decodedIdToken.
                or_throw w1 (js_get decodedIdToken ''email'') (\<lambda>email.
                authenticateUser env (Obj [(''userEmail'', email)]) w1)))))))))"

definition azureOauthCallback :: "'s env \<Rightarrow> jsval \<Rightarrow> 's world \<Rightarrow> (jsval + jsval) \<times> 's world" where
  "azureOauthCallback env request w =
     (if typeof request = ''undefined''
      then handleError env (Str ''request must be defined'') ''bad params'' w
      else or_throw w (js_get request ''body'') (\<lambda>body.
           or_throw w (js_get body ''code'') (\<lambda>code.
      if typeof code \<noteq> ''string''
      then handleError env (Str ''code must be a string'') ''bad params'' w
      else or_throw w (js_get body ''redirect_url'') (\<lambda>redirect_url.
      if typeof redirect_url \<noteq> ''string''
      then handleError env (Str ''redirect_url must be a string'') ''bad params'' w
      else
        (let params = azure_params env redirect_url code;
             w1 = emit (AxiosPost azure_token_url (join params ''&'')) w
         in case post env azure_token_url (join params ''&'') of
              Inl error \<Rightarrow> handleError env error ''azureOauthResponse'' w1
            | Inr azureResponse \<Rightarrow>
                or_throw w1 (js_get azureResponse ''data'') (\<lambda>data.
                or_throw w1 (js_get data ''id_token'') (\<lambda>id_token.
                or_throw w1 (decode env id_token) (\<lambda>decodedIdToken.
                or_throw w1 (js_get decodedIdToken ''upn'') (\<lambda>upn.
                authenticateUser env (Obj [(''userEmail'', upn)]) w1)))))))))"

subsection \<open>The routes\<close>

text \<open>
  \<^verbatim>\<open>module.exports.routes\<close>: path, method, and for each the documented body fields (name,
  optional, type) and the function that serves it.  A route without \<^verbatim>\<open>ignore_jwt_auth\<close>
  is served only after the HTTP layer has verified the token of the request.
\<close>

record 's route =
  ignore_jwt_auth :: bool
  desc :: string
  jsonBody :: "(string \<times> bool \<times> string) list"
  fn :: "'s env \<Rightarrow> jsval \<Rightarrow> 's world \<Rightarrow> (jsval + jsval) \<times> 's world"

definition routes :: "(string \<times> string \<times> 's route) list" where
  "routes =
     [([], ''post'',
         \<lparr> ignore_jwt_auth = True,
           desc = ''attempts to authenticate a user'',
           jsonBody = [(''username'', False, ''string''), (''password'', False, ''string'')],
           fn = authChallenge \<rparr>),
      (''jwt_check'', ''get'',
         \<lparr> ignore_jwt_auth = False,
           desc = ''checks for authentic jwt'',
           jsonBody = [],
           fn = jwtCheck \<rparr>),
      (''google_callback'', ''post'',
         \<lparr> ignore_jwt_auth = True,
           desc = ''logs in via google oauth'',
           jsonBody = [(''code'', False, ''string''), (''redirect_url'', False, ''string'')],
           fn = googleOauthCallback \<rparr>),
      (''azure_callback'', ''post'',
         \<lparr> ignore_jwt_auth = True,
           desc = ''logs in via azure oauth'',
           jsonBody = [(''code'', False, ''string''), (''redirect_url'', False, ''string'')],
           fn = azureOauthCallback \<rparr>)]"


section \<open>Notions of the specification\<close>

text \<open>
  Reading a property where the statement, not the code, reads it: \<^verbatim>\<open>undefined\<close> where the
  code would throw.
\<close>

definition field :: "jsval \<Rightarrow> string \<Rightarrow> jsval" where
  "field v k = (case js_get v k of Inl e \<Rightarrow> Undefined | Inr x \<Rightarrow> x)"

definition nullish :: "jsval \<Rightarrow> bool" where
  "nullish v = (v = Undefined \<or> v = Null)"

text \<open>
  The reportable error as the specification words it (section 4.4): an error that carries
  a nested provider-response payload surfaces the payload's \<^verbatim>\<open>error\<close>, and as message its
  \<^verbatim>\<open>error_description\<close> or else the string form of the error; any other error surfaces as
  it is.  The payload is present when \<^verbatim>\<open>error\<close>, \<^verbatim>\<open>error.response\<close> and
  \<^verbatim>\<open>error.response.data\<close> are truthy.
\<close>

definition error_payload :: "jsval \<Rightarrow> jsval" where
  "error_payload error = field (field error ''response'') ''data''"

definition carries_payload :: "jsval \<Rightarrow> bool" where
  "carries_payload error =
     (truthy error \<and> truthy (field error ''response'') \<and> truthy (error_payload error))"

definition ReportableError :: "'s env \<Rightarrow> jsval \<Rightarrow> string \<Rightarrow> jsval" where
  "ReportableError env error stageTag =
     (if carries_payload error
      then Obj [(''error'', field (error_payload error) ''error''),
                (''message'', if truthy (field (error_payload error) ''error_description'')
                              then field (error_payload error) ''error_description''
                              else toString env error),
                (''type'', Str stageTag)]
      else Obj [(''error'', error), (''type'', Str stageTag)])"

text \<open>The successful response: an object with exactly the four properties, in this order.\<close>

definition is_AuthResult :: "jsval \<Rightarrow> bool" where
  "is_AuthResult r =
     (case r of
        Obj fs \<Rightarrow> map fst fs = [''jwt'', ''serial'', ''user'', ''redirectUrl'']
      | _ \<Rightarrow> False)"

text \<open>The calls to the user store, and the calls to any remote collaborator.\<close>

fun is_store_query :: "event \<Rightarrow> bool" where
  "is_store_query (GetUser email password) = True"
| "is_store_query (RelayLogError tag error) = False"
| "is_store_query (AxiosPost url body) = False"
| "is_store_query (JwtSign payload secret expiresIn) = False"

definition store_queries :: "'s world \<Rightarrow> event list" where
  "store_queries w = filter is_store_query (events w)"

fun is_remote_call :: "event \<Rightarrow> bool" where
  "is_remote_call (AxiosPost url body) = True"
| "is_remote_call (GetUser email password) = True"
| "is_remote_call (RelayLogError tag error) = False"
| "is_remote_call (JwtSign payload secret expiresIn) = False"

definition remote_calls :: "'s world \<Rightarrow> event list" where
  "remote_calls w = filter is_remote_call (events w)"

text \<open>
  Two strings differ only in letter case: they have the same length, and at each position
  they have the same character, or the capital and the small form of one letter.  The
  letters are written out, each capital letter above its small form: the 26 letters of
  ASCII and the 30 letters of Latin-1 that have both forms among the code units of the
  model.
\<close>

definition capital_letters :: string where
  "capital_letters =
     ''ABCDEFGHIJKLMNOPQRSTUVWXYZ'' @
       [CHR 0xC0, CHR 0xC1, CHR 0xC2, CHR 0xC3, CHR 0xC4, CHR 0xC5, CHR 0xC6, CHR 0xC7,
        CHR 0xC8, CHR 0xC9, CHR 0xCA, CHR 0xCB, CHR 0xCC, CHR 0xCD, CHR 0xCE, CHR 0xCF,
        CHR 0xD0, CHR 0xD1, CHR 0xD2, CHR 0xD3, CHR 0xD4, CHR 0xD5, CHR 0xD6, CHR 0xD8,
        CHR 0xD9, CHR 0xDA, CHR 0xDB, CHR 0xDC, CHR 0xDD, CHR 0xDE]"

definition small_letters :: string where
  "small_letters =
     ''abcdefghijklmnopqrstuvwxyz'' @
       [CHR 0xE0, CHR 0xE1, CHR 0xE2, CHR 0xE3, CHR 0xE4, CHR 0xE5, CHR 0xE6, CHR 0xE7,
        CHR 0xE8, CHR 0xE9, CHR 0xEA, CHR 0xEB, CHR 0xEC, CHR 0xED, CHR 0xEE, CHR 0xEF,
        CHR 0xF0, CHR 0xF1, CHR 0xF2, CHR 0xF3, CHR 0xF4, CHR 0xF5, CHR 0xF6, CHR 0xF8,
        CHR 0xF9, CHR 0xFA, CHR 0xFB, CHR 0xFC, CHR 0xFD, CHR 0xFE]"

definition letter_cases :: "(char \<times> char) list" where
  "letter_cases = zip capital_letters small_letters"



text \<open>A user store whose lookup leaves the state of the store as it was.\<close>

definition read_only_store :: "'s env \<Rightarrow> bool" where
  "read_only_store env = (\<forall>s email password. snd (getUser env s email password) = s)"

text \<open>
  A documented body field is offending in a body when it is not optional and the value
  the body has for it is not of the documented type (a missing field has the type
  \<^verbatim>\<open>undefined\<close>).
\<close>

definition offending :: "jsval \<Rightarrow> string \<times> bool \<times> string \<Rightarrow> bool" where
  "offending body f =
     (case f of (name, optional, type) \<Rightarrow> \<not> optional \<and> typeof (field body name) \<noteq> type)"

definition first_offending :: "(string \<times> bool \<times> string) list \<Rightarrow> jsval \<Rightarrow> string option" where
  "first_offending declared body = map_option fst (find (offending body) declared)"

definition valid_body :: "(string \<times> bool \<times> string) list \<Rightarrow> jsval \<Rightarrow> bool" where
  "valid_body declared body =
     (typeof body = ''object'' \<and> truthy body \<and> first_offending declared body = None)"

text \<open>
  The route answers the request with the bad-parameter error of this message, and has
  called neither the OAuth token endpoint nor the user store.
\<close>

definition bad_params :: "'s route \<Rightarrow> 's env \<Rightarrow> jsval \<Rightarrow> 's world \<Rightarrow> string \<Rightarrow> bool" where
  "bad_params route env request w message =
     (fst (fn route env request w) =
        Inr (Obj [(''error'', Str message), (''type'', Str ''bad params'')])
      \<and> remote_calls (snd (fn route env request w)) = remote_calls w
      \<and> store (snd (fn route env request w)) = store w)"

text \<open>
  What the controller relies on without checking it.  Of the collaborators: a lookup in
  the store at hand that succeeds yields a user that is neither \<^verbatim>\<open>undefined\<close> nor \<^verbatim>\<open>null\<close>;
  signing with the configured secret returns a token; a token exchange that succeeds
  yields a response with \<^verbatim>\<open>data\<close> whose \<^verbatim>\<open>id_token\<close> decodes to claims.  Of the request,
  by route: on the password route, the request is \<^verbatim>\<open>undefined\<close>, or it is not \<^verbatim>\<open>null\<close> and
  carries \<^verbatim>\<open>normalizedHeaders\<close> whenever its body passes validation; on the recheck route,
  it carries \<^verbatim>\<open>jwtPayload.data\<close> and \<^verbatim>\<open>normalizedHeaders\<close>; on an OAuth route, it is
  \<^verbatim>\<open>undefined\<close> or carries a body.
\<close>

definition collaborators_return :: "'s env \<Rightarrow> 's \<Rightarrow> bool" where
  "collaborators_return env s =
     ((\<forall>email password user s'.
          getUser env s email password = (Inr user, s') \<longrightarrow> \<not> nullish user)
      \<and> (\<forall>payload expiresIn now. \<exists>token.
          sign env payload (JWT_SECRET env) expiresIn now = Inr token)
      \<and> (\<forall>url body response.
          post env url body = Inr response \<longrightarrow>
            \<not> nullish (field response ''data'')
            \<and> (\<exists>claims. decode env (field (field response ''data'') ''id_token'') = Inr claims
                  \<and> \<not> nullish claims)))"

definition request_in_contract :: "string \<Rightarrow> (string \<times> bool \<times> string) list \<Rightarrow> jsval \<Rightarrow> bool" where
  "request_in_contract path declared request =
     (if path = [] then
        request = Undefined
        \<or> (request \<noteq> Null
            \<and> (valid_body declared (field request ''body'')
                 \<longrightarrow> \<not> nullish (field request ''normalizedHeaders'')))
      else if path = ''jwt_check'' then
        \<not> nullish (field request ''jwtPayload'')
        \<and> \<not> nullish (field (field request ''jwtPayload'') ''data'')
        \<and> \<not> nullish (field request ''normalizedHeaders'')
      else
        request = Undefined \<or> \<not> nullish (field request ''body''))"

text \<open>The call returns a value, and the value is a successful response or a reportable error.\<close>

definition normal_return :: "'s env \<Rightarrow> (jsval + jsval) \<times> 's world \<Rightarrow> bool" where
  "normal_return env outcome =
     (\<exists>r. fst outcome = Inr r
        \<and> (is_AuthResult r \<or> (\<exists>error type. r = ReportableError env error type)))"


section \<open>An example deployment\<close>

text \<open>
  Modelled from the spec: the collaborators, whose code is not part of the controller.
  These are concrete ones, on which the controller can be run.  The user store is a table
  of (email, password, user record), queried by lowercased email and a credential; a
  lookup with an absent password checks the email only, and no lookup changes the table.
  A session token is a self-contained structure valid for a window that starts at its
  issuance; a signed token is represented here by what it encodes: the payload, the time
  of issue (the time of the call of \<^verbatim>\<open>jwt.sign\<close>) and the time of expiry (\<^verbatim>\<open>expiresIn\<close>
  seconds later).
\<close>

type_synonym user_table = "(string \<times> string \<times> jsval) list"

definition table_getUser :: "user_table \<Rightarrow> jsval \<Rightarrow> jsval \<Rightarrow> (jsval + jsval) \<times> user_table" where
  "table_getUser s email password =
     (case email of
        Str k \<Rightarrow>
          (case map_of s k of
             None \<Rightarrow> (Inl (Str ''user not found''), s)
           | Some (pw, user) \<Rightarrow>
               if password = Undefined \<or> password = Str pw then (Inr user, s)
               else (Inl (Str ''invalid password''), s))
      | _ \<Rightarrow> (Inl (Str ''user not found''), s))"

definition example_sign :: "jsval \<Rightarrow> string option \<Rightarrow> nat \<Rightarrow> nat \<Rightarrow> jsval + jsval" where
  "example_sign payload secret expiresIn now =
     (case secret of
        None \<Rightarrow> Inl (Str ''secretOrPrivateKey must have a value'')
      | Some k \<Rightarrow> Inr (Obj [(''payload'', payload),
                            (''iat'', Num (int now)),
                            (''exp'', Num (int (now + expiresIn)))]))"

definition example_decode :: "jsval \<Rightarrow> jsval + jsval" where
  "example_decode token =
     (if token = Str ''google-id-token'' then Inr (Obj [(''email'', Str ''Alice@Example.com'')])
      else if token = Str ''azure-id-token'' then Inr (Obj [(''upn'', Str ''Bob@X.com'')])
      else Inr Null)"

definition provider_error :: jsval where
  "provider_error =
     Obj [(''response'', Obj [(''data'', Obj [(''error'', Str ''invalid_grant''),
                                              (''error_description'', Str ''Bad Request'')])])]"

definition example_post :: "string \<Rightarrow> string \<Rightarrow> jsval + jsval" where
  "example_post url body =
     (if url = google_token_url \<and> body = ''client_id=250992307284-m88p8nub2ormiak916etcu4ke3o850it.apps.googleusercontent.com&client_secret=gs&redirect_uri=https://app/cb&grant_type=authorization_code&code=good''
      then Inr (Obj [(''data'', Obj [(''id_token'', Str ''google-id-token'')])])
      else if url = azure_token_url \<and> body = ''client_id=az&client_secret=as&resource=https://graph.windows.net/&redirect_uri=https://app/cb&grant_type=authorization_code&code=good''
      then Inr (Obj [(''data'', Obj [(''id_token'', Str ''azure-id-token'')])])
      else Inl provider_error)"

definition example_env :: "user_table env" where
  "example_env =
     \<lparr> getUser = table_getUser,
       post = example_post,
       sign = example_sign,
       decode = example_decode,
       toString = (\<lambda>e. Str ''Error: Request failed with status code 400''),
       JWT_SECRET = Some ''s3cret'',
       GOOGLE_SECRET = Some ''gs'',
       AZURE_CLIENT_ID = Some ''az'',
       AZURE_CLIENT_SECRET = Some ''as'' \<rparr>"

definition alice :: jsval where
  "alice = Obj [(''email'', Str ''alice@example.com''), (''customer_id'', Str ''C1'')]"

definition bob :: jsval where
  "bob = Obj [(''email'', Str ''bob@x.com''), (''customer_id'', Str ''C1'')]"

definition example_world :: "user_table world" where
  "example_world =
     \<lparr> store = [(''alice@example.com'', ''pw1'', alice), (''bob@x.com'', ''p1'', bob)],
       events = [],
       clock = 1000 \<rparr>"

text \<open>Requests of the four routes.\<close>

definition recheck_request :: jsval where
  "recheck_request =
     Obj [(''jwtPayload'', Obj [(''data'', Obj [(''uEmail'', Str ''alice@example.com''),
                                                (''cId'', Str ''C1'')])]),
          (''normalizedHeaders'', Obj [(''jwt'', Str ''prior.session.token'')])]"

definition login_request :: jsval where
  "login_request =
     Obj [(''body'', Obj [(''username'', Str ''bob@x.com''), (''password'', Str ''p1'')]),
          (''normalizedHeaders'', Obj [])]"

definition oauth_request :: "string \<Rightarrow> jsval" where
  "oauth_request code =
     Obj [(''body'', Obj [(''code'', Str code), (''redirect_url'', Str ''https://app/cb'')])]"


section \<open>Basic facts\<close>

lemmas controller_defs =
  jwtCheck_def authChallenge_def googleOauthCallback_def azureOauthCallback_def
  authenticateUser_def newJWT_def handleError_def or_throw_def emit_def
  google_params_def azure_params_def google_token_url_def azure_token_url_def
  JWT_VALID_SECONDS_def lower_char_def is_upper_code_def char_of_def bit_0 Let_def

lemmas example_defs =
  example_env_def example_world_def table_getUser_def example_sign_def example_decode_def
  example_post_def provider_error_def alice_def bob_def
  recheck_request_def login_request_def oauth_request_def

lemma typeof_undefined [simp]: "typeof v = ''undefined'' \<longleftrightarrow> v = Undefined"
  by (cases v) simp_all

lemma typeof_string [simp]: "typeof v = ''string'' \<longleftrightarrow> (\<exists>s. v = Str s)"
  by (cases v) simp_all

lemma nullish_Obj [simp]: "\<not> nullish (Obj fs)"
  by (simp add: nullish_def)

lemma truthy_not_nullish: "truthy v \<Longrightarrow> \<not> nullish v"
  by (cases v) (simp_all add: nullish_def)

lemma js_get_field: "\<not> nullish v \<Longrightarrow> js_get v k = Inr (field v k)"
  by (cases v) (simp_all add: field_def nullish_def)

lemma js_get_Inr_defined: "js_get v k = Inr x \<Longrightarrow> v \<noteq> Undefined"
  by (cases v) simp_all

lemma store_emit [simp]: "store (emit e w) = store w"
  by (simp add: emit_def)

lemma clock_emit [simp]: "clock (emit e w) = clock w"
  by (simp add: emit_def)

lemma events_emit [simp]: "events (emit e w) = events w @ [e]"
  by (simp add: emit_def)

lemma store_queries_emit_log [simp]:
  "store_queries (emit (RelayLogError t e) w) = store_queries w"
  by (simp add: store_queries_def)

lemma store_queries_emit_post [simp]:
  "store_queries (emit (AxiosPost url body) w) = store_queries w"
  by (simp add: store_queries_def)

lemma store_queries_emit_get [simp]:
  "store_queries (emit (GetUser k p) w) = store_queries w @ [GetUser k p]"
  by (simp add: store_queries_def)

lemma store_queries_store [simp]: "store_queries (w\<lparr>store := s\<rparr>) = store_queries w"
  by (simp add: store_queries_def)

text \<open>The outcome of wrapping a token into the response keeps the world of the token.\<close>

lemma snd_wrap_result:
  "snd (case p of (Inl e, w2) \<Rightarrow> (Inl e, w2) | (Inr token, w2) \<Rightarrow> (Inr (f token), w2)) = snd p"
  by (cases p; cases "fst p") auto

lemma fst_wrap_result:
  "fst (case p of (Inl e, w2) \<Rightarrow> (Inl e, w2) | (Inr token, w2) \<Rightarrow> (Inr (f token), w2)) =
     (case fst p of Inl e \<Rightarrow> Inl e | Inr token \<Rightarrow> Inr (f token))"
  by (cases p; cases "fst p") auto

lemma routes_cases:
  assumes "(path, method, route) \<in> set routes"
  obtains
    (password) "path = []" "fn route = authChallenge" "ignore_jwt_auth route"
      "jsonBody route = [(''username'', False, ''string''), (''password'', False, ''string'')]"
  | (recheck) "path = ''jwt_check''" "fn route = jwtCheck" "\<not> ignore_jwt_auth route"
      "jsonBody route = []"
  | (google) "path = ''google_callback''" "fn route = googleOauthCallback" "ignore_jwt_auth route"
      "jsonBody route = [(''code'', False, ''string''), (''redirect_url'', False, ''string'')]"
  | (azure) "path = ''azure_callback''" "fn route = azureOauthCallback" "ignore_jwt_auth route"
      "jsonBody route = [(''code'', False, ''string''), (''redirect_url'', False, ''string'')]"
  using assms by (auto simp: routes_def)


section \<open>The error translator\<close>

text \<open>
  \<^verbatim>\<open>handleError\<close> never throws: each property it reads, it reads from a truthy value.  It
  logs once and returns the reportable error of the specification.
\<close>

lemma handleError_eq:
  "handleError env error type w =
     (Inr (ReportableError env error type),
      emit (RelayLogError (''[Err] auth - '' @ type) error) w)"
  by (simp add: handleError_def ReportableError_def carries_payload_def error_payload_def
      or_throw_def Let_def js_get_field truthy_not_nullish)

lemma ReportableError_redirectUrl [simp]:
  "js_get (ReportableError env error type) ''redirectUrl'' = Inr Undefined"
  by (simp add: ReportableError_def)

lemma ReportableError_type [simp]:
  "js_get (ReportableError env error type) ''type'' = Inr (Str type)"
  by (simp add: ReportableError_def)

lemma normal_return_handleError [simp]: "normal_return env (handleError env error type w)"
  by (auto simp: normal_return_def handleError_eq)

text \<open>
  C6.  For every error value and stage tag, \<^verbatim>\<open>handleError\<close> returns
  \<^verbatim>\<open>{error: payload.error, message: payload.error_description || error.toString(), type}\<close>
  when the error carries a provider-response payload (\<^verbatim>\<open>error\<close>, \<^verbatim>\<open>error.response\<close> and
  \<^verbatim>\<open>error.response.data\<close> truthy), and \<^verbatim>\<open>{error, type}\<close> otherwise.
\<close>

theorem handleError_shape:
  "fst (handleError env error stageTag w) =
     Inr (if carries_payload error
          then Obj [(''error'', field (error_payload error) ''error''),
                    (''message'', if truthy (field (error_payload error) ''error_description'')
                                  then field (error_payload error) ''error_description''
                                  else toString env error),
                    (''type'', Str stageTag)]
          else Obj [(''error'', error), (''type'', Str stageTag)])"
  by (simp add: handleError_eq ReportableError_def)

theorem handleError_shape_witness:
  "fst (handleError example_env provider_error ''googleOauthResponse'' example_world) =
     Inr (Obj [(''error'', Str ''invalid_grant''),
               (''message'', Str ''Bad Request''),
               (''type'', Str ''googleOauthResponse'')])
   \<and> fst (handleError example_env
            (Obj [(''response'', Obj [(''data'', Obj [(''error'', Str ''invalid_grant'')])])])
            ''azureOauthResponse'' example_world) =
     Inr (Obj [(''error'', Str ''invalid_grant''),
               (''message'', Str ''Error: Request failed with status code 400''),
               (''type'', Str ''azureOauthResponse'')])
   \<and> fst (handleError example_env (Str ''username required'') ''bad params'' example_world) =
     Inr (Obj [(''error'', Str ''username required''), (''type'', Str ''bad params'')])
   \<and> fst (handleError example_env (Obj [(''response'', Obj [(''data'', Str [])])])
            ''authenticateUser'' example_world) =
     Inr (Obj [(''error'', Obj [(''response'', Obj [(''data'', Str [])])]),
               (''type'', Str ''authenticateUser'')])"
  using handleError_shape [of example_env provider_error "''googleOauthResponse''" example_world]
    handleError_shape [of example_env
      "Obj [(''response'', Obj [(''data'', Obj [(''error'', Str ''invalid_grant'')])])]"
      "''azureOauthResponse''" example_world]
    handleError_shape [of example_env "Str ''username required''" "''bad params''" example_world]
    handleError_shape [of example_env "Obj [(''response'', Obj [(''data'', Str [])])]"
      "''authenticateUser''" example_world]
  by (simp add: carries_payload_def error_payload_def field_def provider_error_def example_env_def)


section \<open>The recheck path and the prior token\<close>

text \<open>
  C1 (the recheck path returns the prior token unchanged).  The code does not do this:
  \<^verbatim>\<open>jwtCheck\<close> hands the token of the request over as the option \<^verbatim>\<open>jwt\<close>, and
  \<^verbatim>\<open>authenticateUser\<close> reads the option \<^verbatim>\<open>previousJwt\<close>, which no entry point sets.  So
  \<^verbatim>\<open>previousJwt\<close> is undefined and the token is signed anew.  Here the request carries
  the token \<^verbatim>\<open>prior.session.token\<close> and a payload that the store resolves; the token of
  the result is the one \<^verbatim>\<open>jwt.sign\<close> made, and \<^verbatim>\<open>jwt.sign\<close> was called.
\<close>

theorem jwtCheck_signs_anew:
  "js_get recheck_request ''normalizedHeaders'' = Inr (Obj [(''jwt'', Str ''prior.session.token'')])
   \<and> fst (jwtCheck example_env recheck_request example_world) =
     Inr (Obj [(''jwt'', Obj [(''payload'', Obj [(''data'', Obj [(''cId'', Str ''C1''),
                                                                 (''uEmail'', Str ''alice@example.com''),
                                                                 (''u_cId'', Str ''C1'')])]),
                              (''iat'', Num 1000),
                              (''exp'', Num 1210600)]),
               (''serial'', Str ''C1''),
               (''user'', alice),
               (''redirectUrl'', Undefined)])
   \<and> events (snd (jwtCheck example_env recheck_request example_world)) =
       [GetUser (Str ''alice@example.com'') Undefined,
        JwtSign (Obj [(''data'', Obj [(''cId'', Str ''C1''),
                                      (''uEmail'', Str ''alice@example.com''),
                                      (''u_cId'', Str ''C1'')])])
                (Some ''s3cret'') 1209600]"
  by (simp add: controller_defs example_defs)

text \<open>
  C8 (two recheck calls with the same prior token return the same token).  For the same
  reason the code signs a token at each call; a second call one second after the first
  returns a token with another time of issue.
\<close>

theorem jwtCheck_twice_differs:
  "fst (jwtCheck example_env recheck_request example_world) \<noteq>
   fst (jwtCheck example_env recheck_request
          ((snd (jwtCheck example_env recheck_request example_world))
             \<lparr>clock := Suc (clock example_world)\<rparr>))"
  by (simp add: controller_defs example_defs)



section \<open>The session resolver\<close>

lemma newJWT_store: "store (snd (newJWT env previousJwt customerId user w)) = store w"
  by (simp add: newJWT_def or_throw_def Let_def split: sum.splits)


text \<open>
  The store after \<^verbatim>\<open>authenticateUser\<close> is the store as the one call of \<^verbatim>\<open>getUser\<close> left
  it, or the store before when that call is not reached.
\<close>

lemma authenticateUser_store:
  "store (snd (authenticateUser env options w)) =
     (case js_get options ''userEmail'' of
        Inl e \<Rightarrow> store w
      | Inr userEmail \<Rightarrow>
          (case toLowerCase userEmail of
             Inl e \<Rightarrow> store w
           | Inr key \<Rightarrow> snd (getUser env (store w) key (field options ''password''))))"
proof (cases "nullish options")
  case True
  then show ?thesis
    by (auto simp: nullish_def authenticateUser_def or_throw_def)
next
  case False
  then show ?thesis
    by (auto simp: authenticateUser_def or_throw_def js_get_field handleError_eq
        snd_wrap_result newJWT_store split: sum.splits prod.splits)
qed

lemma example_read_only: "read_only_store example_env"
  by (simp add: read_only_store_def example_env_def table_getUser_def
      split: jsval.splits option.splits)

text \<open>
  C9.  For every options value, \<^verbatim>\<open>authenticateUser\<close> leaves the user store in the state
  it found it in, whether it returns a response, returns an error or throws: its only
  access to the store is \<^verbatim>\<open>getUser\<close>, taken here to be a lookup that does not change the
  store.
\<close>

theorem authenticateUser_store_unchanged:
  assumes "read_only_store env"
  shows "store (snd (authenticateUser env options w)) = store w"
  using assms
  by (simp add: authenticateUser_store read_only_store_def split: sum.splits)

theorem authenticateUser_store_unchanged_witness:
  "read_only_store example_env
   \<and> store (snd (authenticateUser example_env
        (Obj [(''userEmail'', Str ''bob@x.com''), (''password'', Str ''p1'')]) example_world)) =
     [(''alice@example.com'', ''pw1'', alice), (''bob@x.com'', ''p1'', bob)]
   \<and> store (snd (authenticateUser example_env
        (Obj [(''userEmail'', Str ''bob@x.com''), (''password'', Str ''wrong'')]) example_world)) =
     [(''alice@example.com'', ''pw1'', alice), (''bob@x.com'', ''p1'', bob)]"
  using example_read_only
    authenticateUser_store_unchanged [OF example_read_only,
      of "Obj [(''userEmail'', Str ''bob@x.com''), (''password'', Str ''p1'')]" example_world]
    authenticateUser_store_unchanged [OF example_read_only,
      of "Obj [(''userEmail'', Str ''bob@x.com''), (''password'', Str ''wrong'')]" example_world]
  by (simp add: example_world_def)


section \<open>The lookup key\<close>



lemma letter_cases_codes:
  "letter_cases =
     map (\<lambda>n. (char_of n, char_of (n + 32))) ([65..<91] @ [192..<215] @ [216..<223] :: nat list)"
  by (simp add: upt_rec letter_cases_def capital_letters_def small_letters_def char_of_def bit_0)

lemma lower_char_in_table:
  assumes "lower_char c \<noteq> c"
  shows "(c, lower_char c) \<in> set letter_cases"
proof -
  have u: "is_upper_code (of_char c)"
    using assms by (auto simp: lower_char_def split: if_splits)
  then have "(of_char c :: nat) \<in> {65..<91} \<union> ({192..<215} \<union> {216..<223})"
    unfolding is_upper_code_def Un_iff atLeastLessThan_iff by arith
  then have "(of_char c :: nat) \<in> set ([65..<91] @ [192..<215] @ [216..<223])"
    by (simp only: set_append set_upt)
  then have "(char_of (of_char c :: nat), char_of (of_char c + (32::nat))) \<in> set letter_cases"
    unfolding letter_cases_codes set_map image_iff by blast
  then show ?thesis
    using u by (simp add: lower_char_def)
qed







section \<open>The redirect URL\<close>

lemma authenticateUser_redirectUrl:
  assumes "fst (authenticateUser env (Obj fs) w) = Inr r" "map_of fs ''redirectUrl'' = None"
  shows "js_get r ''redirectUrl'' = Inr Undefined"
  using assms
  by (auto simp: authenticateUser_def or_throw_def handleError_eq fst_wrap_result
      split: sum.splits prod.splits)

lemma authChallenge_redirectUrl:
  "fst (authChallenge env request w) = Inr r \<Longrightarrow> js_get r ''redirectUrl'' = Inr Undefined"
  by (auto simp: authChallenge_def or_throw_def handleError_eq
      split: sum.splits if_splits dest!: authenticateUser_redirectUrl)

lemma jwtCheck_redirectUrl:
  "fst (jwtCheck env request w) = Inr r \<Longrightarrow> js_get r ''redirectUrl'' = Inr Undefined"
  by (auto simp: jwtCheck_def or_throw_def handleError_eq
      split: sum.splits if_splits dest!: authenticateUser_redirectUrl)

lemma googleOauthCallback_redirectUrl:
  "fst (googleOauthCallback env request w) = Inr r \<Longrightarrow> js_get r ''redirectUrl'' = Inr Undefined"
  by (auto simp: googleOauthCallback_def or_throw_def handleError_eq Let_def
      split: sum.splits if_splits dest!: authenticateUser_redirectUrl)

lemma azureOauthCallback_redirectUrl:
  "fst (azureOauthCallback env request w) = Inr r \<Longrightarrow> js_get r ''redirectUrl'' = Inr Undefined"
  by (auto simp: azureOauthCallback_def or_throw_def handleError_eq Let_def
      split: sum.splits if_splits dest!: authenticateUser_redirectUrl)

text \<open>
  C10.  Whatever route serves a request, a successful response has \<^verbatim>\<open>redirectUrl\<close>
  undefined: no entry point puts a \<^verbatim>\<open>redirectUrl\<close> into the options, and
  \<^verbatim>\<open>authenticateUser\<close> copies the option into the response.
\<close>

theorem redirectUrl_undefined:
  assumes "(path, method, route) \<in> set routes"
    and "fst (fn route env request w) = Inr r"
    and "is_AuthResult r"
  shows "js_get r ''redirectUrl'' = Inr Undefined"
  using assms(1)
proof (cases rule: routes_cases)
  case password
  then show ?thesis using assms(2) by (simp add: authChallenge_redirectUrl)
next
  case recheck
  then show ?thesis using assms(2) by (simp add: jwtCheck_redirectUrl)
next
  case google
  then show ?thesis using assms(2) by (simp add: googleOauthCallback_redirectUrl)
next
  case azure
  then show ?thesis using assms(2) by (simp add: azureOauthCallback_redirectUrl)
qed


theorem redirectUrl_undefined_witness:
  "fst (authChallenge example_env login_request example_world) =
     Inr (Obj [(''jwt'', Obj [(''payload'', Obj [(''data'', Obj [(''cId'', Undefined),
                                                                 (''uEmail'', Str ''bob@x.com''),
                                                                 (''u_cId'', Str ''C1'')])]),
                              (''iat'', Num 1000),
                              (''exp'', Num 1210600)]),
               (''serial'', Undefined),
               (''user'', bob),
               (''redirectUrl'', Undefined)])
   \<and> is_AuthResult
       (Obj [(''jwt'', Obj [(''payload'', Obj [(''data'', Obj [(''cId'', Undefined),
                                                               (''uEmail'', Str ''bob@x.com''),
                                                               (''u_cId'', Str ''C1'')])]),
                            (''iat'', Num 1000),
                            (''exp'', Num 1210600)]),
             (''serial'', Undefined),
             (''user'', bob),
             (''redirectUrl'', Undefined)])
   \<and> js_get
       (Obj [(''jwt'', Obj [(''payload'', Obj [(''data'', Obj [(''cId'', Undefined),
                                                               (''uEmail'', Str ''bob@x.com''),
                                                               (''u_cId'', Str ''C1'')])]),
                            (''iat'', Num 1000),
                            (''exp'', Num 1210600)]),
             (''serial'', Undefined),
             (''user'', bob),
             (''redirectUrl'', Undefined)]) ''redirectUrl'' = Inr Undefined"
proof -
  let ?route = "\<lparr> ignore_jwt_auth = True,
                  desc = ''attempts to authenticate a user'',
                  jsonBody = [(''username'', False, ''string''), (''password'', False, ''string'')],
                  fn = authChallenge \<rparr> :: user_table route"
  let ?r = "Obj [(''jwt'', Obj [(''payload'', Obj [(''data'', Obj [(''cId'', Undefined),
                                                                   (''uEmail'', Str ''bob@x.com''),
                                                                   (''u_cId'', Str ''C1'')])]),
                                (''iat'', Num 1000),
                                (''exp'', Num 1210600)]),
                 (''serial'', Undefined),
                 (''user'', bob),
                 (''redirectUrl'', Undefined)]"
  have m: "([], ''post'', ?route) \<in> set routes"
    by (simp add: routes_def)
  have e: "fst (fn ?route example_env login_request example_world) = Inr ?r"
    by (simp add: controller_defs example_defs)
  have a: "is_AuthResult ?r"
    by (simp add: is_AuthResult_def)
  show ?thesis
    using e a redirectUrl_undefined [OF m e a] by simp
qed


section \<open>The password path\<close>

text \<open>
  C2.  On the password path, when the body carries a username and a password that are
  strings and the store accepts them (the lookup under the lowercased username and the
  password yields a user), the response carries the token that \<^verbatim>\<open>jwt.sign\<close> returns for
  the payload \<^verbatim>\<open>{data: {cId: undefined, uEmail: user.email, u_cId: user.customer_id}}\<close>,
  the configured secret and \<^verbatim>\<open>expiresIn\<close> of 1209600 seconds, which is 14 days; the token
  is signed in this call, whatever token the headers of the request carry.
\<close>

theorem password_login_mints_token:
  assumes "js_get request ''body'' = Inr (Obj params)"
    and "js_get (Obj params) ''username'' = Inr (Str username)"
    and "js_get (Obj params) ''password'' = Inr (Str password)"
    and "js_get request ''normalizedHeaders'' = Inr headers"
    and "\<not> nullish headers"
    and "getUser env (store w) (Str (map lower_char username)) (Str password) = (Inr user, s)"
    and "\<not> nullish user"
    and "sign env (Obj [(''data'', Obj [(''cId'', Undefined),
                                       (''uEmail'', field user ''email''),
                                       (''u_cId'', field user ''customer_id'')])])
           (JWT_SECRET env) 1209600 (clock w) = Inr token"
  shows "fst (authChallenge env request w) =
           Inr (Obj [(''jwt'', token), (''serial'', Undefined), (''user'', user),
                     (''redirectUrl'', Undefined)])
       \<and> events (snd (authChallenge env request w)) =
           events w @
             [GetUser (Str (map lower_char username)) (Str password),
              JwtSign (Obj [(''data'', Obj [(''cId'', Undefined),
                                            (''uEmail'', field user ''email''),
                                            (''u_cId'', field user ''customer_id'')])])
                      (JWT_SECRET env) 1209600]
       \<and> JWT_VALID_SECONDS = 1209600
       \<and> JWT_VALID_SECONDS = 14 * 24 * 60 * 60"
proof -
  have r: "request \<noteq> Undefined"
    using assms(1) by (rule js_get_Inr_defined)
  have v: "JWT_VALID_SECONDS = 1209600"
    by (simp add: JWT_VALID_SECONDS_def)
  have a: "authChallenge env request w =
      authenticateUser env
        (Obj [(''userEmail'', Str username), (''password'', Str password),
              (''jwt'', field headers ''jwt'')]) w"
    using assms(1-5) r
    by (simp add: authChallenge_def or_throw_def js_get_field del: js_get.simps)
  have n: "newJWT env Undefined Undefined user
             (emit (GetUser (Str (map lower_char username)) (Str password)) (w\<lparr>store := s\<rparr>)) =
           (Inr token,
            emit (JwtSign (Obj [(''data'', Obj [(''cId'', Undefined),
                                                (''uEmail'', field user ''email''),
                                                (''u_cId'', field user ''customer_id'')])])
                    (JWT_SECRET env) 1209600)
              (emit (GetUser (Str (map lower_char username)) (Str password)) (w\<lparr>store := s\<rparr>)))"
    using assms(7,8)
    by (simp add: newJWT_def or_throw_def js_get_field v)
  show ?thesis
    using assms(6)
    by (simp add: a authenticateUser_def or_throw_def n v)
qed

theorem password_login_mints_token_witness:
  "fst (authChallenge example_env login_request example_world) =
     Inr (Obj [(''jwt'', Obj [(''payload'', Obj [(''data'', Obj [(''cId'', Undefined),
                                                                 (''uEmail'', Str ''bob@x.com''),
                                                                 (''u_cId'', Str ''C1'')])]),
                              (''iat'', Num 1000),
                              (''exp'', Num (1000 + 1209600))]),
               (''serial'', Undefined),
               (''user'', bob),
               (''redirectUrl'', Undefined)])
   \<and> events (snd (authChallenge example_env login_request example_world)) =
       [GetUser (Str ''bob@x.com'') (Str ''p1''),
        JwtSign (Obj [(''data'', Obj [(''cId'', Undefined),
                                      (''uEmail'', Str ''bob@x.com''),
                                      (''u_cId'', Str ''C1'')])])
                (Some ''s3cret'') 1209600]"
proof -
  let ?params = "[(''username'', Str ''bob@x.com''), (''password'', Str ''p1'')]"
  let ?token = "Obj [(''payload'', Obj [(''data'', Obj [(''cId'', Undefined),
                                                        (''uEmail'', Str ''bob@x.com''),
                                                        (''u_cId'', Str ''C1'')])]),
                     (''iat'', Num 1000),
                     (''exp'', Num 1210600)]"
  have 1: "js_get login_request ''body'' = Inr (Obj ?params)"
    by (simp add: login_request_def)
  have 2: "js_get (Obj ?params) ''username'' = Inr (Str ''bob@x.com'')"
    by simp
  have 3: "js_get (Obj ?params) ''password'' = Inr (Str ''p1'')"
    by simp
  have 4: "js_get login_request ''normalizedHeaders'' = Inr (Obj [])"
    by (simp add: login_request_def)
  have 5: "\<not> nullish (Obj [])"
    by simp
  have 6: "getUser example_env (store example_world) (Str (map lower_char ''bob@x.com'')) (Str ''p1'') =
             (Inr bob, store example_world)"
    by (simp add: example_defs lower_char_def is_upper_code_def char_of_def bit_0)
  have 7: "\<not> nullish bob"
    by (simp add: bob_def)
  have 8: "sign example_env
             (Obj [(''data'', Obj [(''cId'', Undefined), (''uEmail'', field bob ''email''),
                                   (''u_cId'', field bob ''customer_id'')])])
             (JWT_SECRET example_env) 1209600 (clock example_world) = Inr ?token"
    by (simp add: example_defs field_def)
  show ?thesis
    using password_login_mints_token [OF 1 2 3 4 5 6 7 8]
    by (simp add: example_defs field_def lower_char_def is_upper_code_def char_of_def bit_0)
qed



section \<open>The OAuth paths\<close>

lemma authenticateUser_store_failure:
  assumes "getUser env (store w) (Str (map lower_char email)) (field (Obj fs) ''password'') =
             (Inl error, s)"
    and "map_of fs ''userEmail'' = Some (Str email)"
  shows "fst (authenticateUser env (Obj fs) w) = Inr (ReportableError env error ''authenticateUser'')"
  using assms
  by (simp add: authenticateUser_def or_throw_def handleError_eq field_def)

text \<open>
  C5.  On each OAuth path, for a request whose body carries a code and a redirect URL
  that are strings: when the token exchange fails, the response is the reportable error
  of that failure tagged with the name of the provider, and the store has not been queried
  (nor changed); when the exchange succeeds, its identity token decodes to claims with an
  email (Google: \<^verbatim>\<open>email\<close>, Azure: \<^verbatim>\<open>upn\<close>) and the lookup in the store fails, the response
  is the reportable error of that failure tagged \<^verbatim>\<open>authenticateUser\<close>.
\<close>

theorem oauth_failures:
  assumes "js_get request ''body'' = Inr body"
    and "js_get body ''code'' = Inr (Str code)"
    and "js_get body ''redirect_url'' = Inr (Str redirect_url)"
  shows "(post env google_token_url
            (join (google_params env (Str redirect_url) (Str code)) ''&'') = Inl error \<longrightarrow>
          fst (googleOauthCallback env request w) =
            Inr (ReportableError env error ''googleOauthResponse'')
          \<and> js_get (ReportableError env error ''googleOauthResponse'') ''type'' =
              Inr (Str ''googleOauthResponse'')
          \<and> store_queries (snd (googleOauthCallback env request w)) = store_queries w
          \<and> store (snd (googleOauthCallback env request w)) = store w)
       \<and> (post env google_token_url
            (join (google_params env (Str redirect_url) (Str code)) ''&'') = Inr response
          \<and> js_get response ''data'' = Inr data
          \<and> js_get data ''id_token'' = Inr id_token
          \<and> decode env id_token = Inr claims
          \<and> js_get claims ''email'' = Inr (Str email)
          \<and> getUser env (store w) (Str (map lower_char email)) Undefined = (Inl error, s) \<longrightarrow>
          fst (googleOauthCallback env request w) =
            Inr (ReportableError env error ''authenticateUser'')
          \<and> js_get (ReportableError env error ''authenticateUser'') ''type'' =
              Inr (Str ''authenticateUser''))
       \<and> (post env azure_token_url
            (join (azure_params env (Str redirect_url) (Str code)) ''&'') = Inl error \<longrightarrow>
          fst (azureOauthCallback env request w) =
            Inr (ReportableError env error ''azureOauthResponse'')
          \<and> js_get (ReportableError env error ''azureOauthResponse'') ''type'' =
              Inr (Str ''azureOauthResponse'')
          \<and> store_queries (snd (azureOauthCallback env request w)) = store_queries w
          \<and> store (snd (azureOauthCallback env request w)) = store w)
       \<and> (post env azure_token_url
            (join (azure_params env (Str redirect_url) (Str code)) ''&'') = Inr response
          \<and> js_get response ''data'' = Inr data
          \<and> js_get data ''id_token'' = Inr id_token
          \<and> decode env id_token = Inr claims
          \<and> js_get claims ''upn'' = Inr (Str email)
          \<and> getUser env (store w) (Str (map lower_char email)) Undefined = (Inl error, s) \<longrightarrow>
          fst (azureOauthCallback env request w) =
            Inr (ReportableError env error ''authenticateUser'')
          \<and> js_get (ReportableError env error ''authenticateUser'') ''type'' =
              Inr (Str ''authenticateUser''))"
proof -
  have r: "request \<noteq> Undefined"
    using assms(1) by (rule js_get_Inr_defined)
  have g1: "post env google_token_url
              (join (google_params env (Str redirect_url) (Str code)) ''&'') = Inl error \<Longrightarrow>
            googleOauthCallback env request w =
              handleError env error ''googleOauthResponse''
                (emit (AxiosPost google_token_url
                   (join (google_params env (Str redirect_url) (Str code)) ''&'')) w)"
    using assms r by (simp add: googleOauthCallback_def or_throw_def Let_def del: js_get.simps)
  have a1: "post env azure_token_url
              (join (azure_params env (Str redirect_url) (Str code)) ''&'') = Inl error \<Longrightarrow>
            azureOauthCallback env request w =
              handleError env error ''azureOauthResponse''
                (emit (AxiosPost azure_token_url
                   (join (azure_params env (Str redirect_url) (Str code)) ''&'')) w)"
    using assms r by (simp add: azureOauthCallback_def or_throw_def Let_def del: js_get.simps)
  have g2: "post env google_token_url
              (join (google_params env (Str redirect_url) (Str code)) ''&'') = Inr response \<Longrightarrow>
            js_get response ''data'' = Inr data \<Longrightarrow>
            js_get data ''id_token'' = Inr id_token \<Longrightarrow>
            decode env id_token = Inr claims \<Longrightarrow>
            js_get claims ''email'' = Inr (Str email) \<Longrightarrow>
            googleOauthCallback env request w =
              authenticateUser env (Obj [(''userEmail'', Str email)])
                (emit (AxiosPost google_token_url
                   (join (google_params env (Str redirect_url) (Str code)) ''&'')) w)"
    using assms r by (simp add: googleOauthCallback_def or_throw_def Let_def del: js_get.simps)
  have a2: "post env azure_token_url
              (join (azure_params env (Str redirect_url) (Str code)) ''&'') = Inr response \<Longrightarrow>
            js_get response ''data'' = Inr data \<Longrightarrow>
            js_get data ''id_token'' = Inr id_token \<Longrightarrow>
            decode env id_token = Inr claims \<Longrightarrow>
            js_get claims ''upn'' = Inr (Str email) \<Longrightarrow>
            azureOauthCallback env request w =
              authenticateUser env (Obj [(''userEmail'', Str email)])
                (emit (AxiosPost azure_token_url
                   (join (azure_params env (Str redirect_url) (Str code)) ''&'')) w)"
    using assms r by (simp add: azureOauthCallback_def or_throw_def Let_def del: js_get.simps)
  have f: "getUser env (store w) (Str (map lower_char email)) Undefined = (Inl error, s) \<Longrightarrow>
           fst (authenticateUser env (Obj [(''userEmail'', Str email)]) (emit e w)) =
             Inr (ReportableError env error ''authenticateUser'')" for e
    by (rule authenticateUser_store_failure) (simp_all add: field_def)
  show ?thesis
    by (intro conjI impI) (simp_all add: g1 a1 g2 a2 f handleError_eq)
qed

theorem oauth_failures_witness:
  "fst (googleOauthCallback example_env (oauth_request ''expired'') example_world) =
     Inr (Obj [(''error'', Str ''invalid_grant''),
               (''message'', Str ''Bad Request''),
               (''type'', Str ''googleOauthResponse'')])
   \<and> store_queries (snd (googleOauthCallback example_env (oauth_request ''expired'') example_world)) = []
   \<and> fst (azureOauthCallback example_env (oauth_request ''expired'') example_world) =
     Inr (Obj [(''error'', Str ''invalid_grant''),
               (''message'', Str ''Bad Request''),
               (''type'', Str ''azureOauthResponse'')])
   \<and> store_queries (snd (azureOauthCallback example_env (oauth_request ''expired'') example_world)) = []
   \<and> fst (googleOauthCallback example_env (oauth_request ''good'') (example_world\<lparr>store := []\<rparr>)) =
     Inr (Obj [(''error'', Str ''user not found''), (''type'', Str ''authenticateUser'')])
   \<and> fst (azureOauthCallback example_env (oauth_request ''good'') (example_world\<lparr>store := []\<rparr>)) =
     Inr (Obj [(''error'', Str ''user not found''), (''type'', Str ''authenticateUser'')])"
proof -
  let ?body = "\<lambda>code. Obj [(''code'', Str code), (''redirect_url'', Str ''https://app/cb'')]"
  have 1: "js_get (oauth_request code) ''body'' = Inr (?body code)" for code
    by (simp add: oauth_request_def)
  have 2: "js_get (?body code) ''code'' = Inr (Str code)" for code
    by simp
  have 3: "js_get (?body code) ''redirect_url'' = Inr (Str ''https://app/cb'')" for code
    by simp
  note failing = oauth_failures [OF 1 2 3, of example_env "''expired''" provider_error example_world]
  note unknown = oauth_failures [OF 1 2 3, of example_env "''good''" "Str ''user not found''"
      "example_world\<lparr>store := []\<rparr>"]
  have g: "post example_env google_token_url
             (join (google_params example_env (Str ''https://app/cb'') (Str ''expired'')) ''&'') =
           Inl provider_error"
    by (simp add: example_env_def example_post_def google_params_def google_token_url_def)
  have a: "post example_env azure_token_url
             (join (azure_params example_env (Str ''https://app/cb'') (Str ''expired'')) ''&'') =
           Inl provider_error"
    by (simp add: example_env_def example_post_def azure_params_def azure_token_url_def
        google_token_url_def)
  have gu: "post example_env google_token_url
              (join (google_params example_env (Str ''https://app/cb'') (Str ''good'')) ''&'') =
              Inr (Obj [(''data'', Obj [(''id_token'', Str ''google-id-token'')])])
            \<and> js_get (Obj [(''data'', Obj [(''id_token'', Str ''google-id-token'')])]) ''data'' =
                Inr (Obj [(''id_token'', Str ''google-id-token'')])
            \<and> js_get (Obj [(''id_token'', Str ''google-id-token'')]) ''id_token'' =
                Inr (Str ''google-id-token'')
            \<and> decode example_env (Str ''google-id-token'') =
                Inr (Obj [(''email'', Str ''Alice@Example.com'')])
            \<and> js_get (Obj [(''email'', Str ''Alice@Example.com'')]) ''email'' =
                Inr (Str ''Alice@Example.com'')
            \<and> getUser example_env (store (example_world\<lparr>store := []\<rparr>))
                (Str (map lower_char ''Alice@Example.com'')) Undefined =
                (Inl (Str ''user not found''), [])"
    by (simp add: example_env_def example_post_def google_params_def google_token_url_def
        example_decode_def table_getUser_def)
  have au: "post example_env azure_token_url
              (join (azure_params example_env (Str ''https://app/cb'') (Str ''good'')) ''&'') =
              Inr (Obj [(''data'', Obj [(''id_token'', Str ''azure-id-token'')])])
            \<and> js_get (Obj [(''data'', Obj [(''id_token'', Str ''azure-id-token'')])]) ''data'' =
                Inr (Obj [(''id_token'', Str ''azure-id-token'')])
            \<and> js_get (Obj [(''id_token'', Str ''azure-id-token'')]) ''id_token'' =
                Inr (Str ''azure-id-token'')
            \<and> decode example_env (Str ''azure-id-token'') =
                Inr (Obj [(''upn'', Str ''Bob@X.com'')])
            \<and> js_get (Obj [(''upn'', Str ''Bob@X.com'')]) ''upn'' = Inr (Str ''Bob@X.com'')
            \<and> getUser example_env (store (example_world\<lparr>store := []\<rparr>))
                (Str (map lower_char ''Bob@X.com'')) Undefined =
                (Inl (Str ''user not found''), [])"
    by (simp add: example_env_def example_post_def azure_params_def azure_token_url_def
        google_token_url_def example_decode_def table_getUser_def)
  have rep: "ReportableError example_env provider_error tag =
               Obj [(''error'', Str ''invalid_grant''), (''message'', Str ''Bad Request''),
                    (''type'', Str tag)]"
            "ReportableError example_env (Str ''user not found'') tag =
               Obj [(''error'', Str ''user not found''), (''type'', Str tag)]" for tag
    by (simp_all add: ReportableError_def carries_payload_def error_payload_def field_def
        provider_error_def)
  have q: "store_queries example_world = []"
    by (simp add: store_queries_def example_world_def)
  from failing g a have
    "fst (googleOauthCallback example_env (oauth_request ''expired'') example_world) =
       Inr (ReportableError example_env provider_error ''googleOauthResponse'')"
    "store_queries (snd (googleOauthCallback example_env (oauth_request ''expired'') example_world)) = []"
    "fst (azureOauthCallback example_env (oauth_request ''expired'') example_world) =
       Inr (ReportableError example_env provider_error ''azureOauthResponse'')"
    "store_queries (snd (azureOauthCallback example_env (oauth_request ''expired'') example_world)) = []"
    by (simp_all add: q)
  moreover from unknown [of "Obj [(''data'', Obj [(''id_token'', Str ''google-id-token'')])]"
      "Obj [(''id_token'', Str ''google-id-token'')]" "Str ''google-id-token''"
      "Obj [(''email'', Str ''Alice@Example.com'')]" "''Alice@Example.com''" "[]"] gu
  have "fst (googleOauthCallback example_env (oauth_request ''good'') (example_world\<lparr>store := []\<rparr>)) =
       Inr (ReportableError example_env (Str ''user not found'') ''authenticateUser'')"
    by blast
  moreover from unknown [of "Obj [(''data'', Obj [(''id_token'', Str ''azure-id-token'')])]"
      "Obj [(''id_token'', Str ''azure-id-token'')]" "Str ''azure-id-token''"
      "Obj [(''upn'', Str ''Bob@X.com'')]" "''Bob@X.com''" "[]"] au
  have "fst (azureOauthCallback example_env (oauth_request ''good'') (example_world\<lparr>store := []\<rparr>)) =
       Inr (ReportableError example_env (Str ''user not found'') ''authenticateUser'')"
    by blast
  ultimately show ?thesis
    by (simp add: rep)
qed



section \<open>Validation of the request\<close>

lemma bad_paramsI:
  "fn route env request w = handleError env (Str message) ''bad params'' w \<Longrightarrow>
   bad_params route env request w message"
  by (simp add: bad_params_def handleError_eq ReportableError_def carries_payload_def field_def
      remote_calls_def)

lemma authChallenge_fields:
  assumes "js_get request ''body'' = Inr (Obj params)"
    and "first_offending [(''username'', False, ''string''), (''password'', False, ''string'')]
           (Obj params) = Some name"
  shows "authChallenge env request w =
     handleError env
       (Str (name @ (if field (Obj params) name = Undefined
                     then '' required'' else '' must be a string'')))
       ''bad params'' w"
proof -
  have r: "request \<noteq> Undefined"
    using assms(1) by (rule js_get_Inr_defined)
  show ?thesis
    using assms r
    by (auto simp: authChallenge_def or_throw_def first_offending_def offending_def field_def
        split: if_splits)
qed

lemma googleOauthCallback_fields:
  assumes "js_get request ''body'' = Inr (Obj params)"
    and "first_offending [(''code'', False, ''string''), (''redirect_url'', False, ''string'')]
           (Obj params) = Some name"
  shows "googleOauthCallback env request w =
     handleError env (Str (name @ '' must be a string'')) ''bad params'' w"
proof -
  have r: "request \<noteq> Undefined"
    using assms(1) by (rule js_get_Inr_defined)
  show ?thesis
    using assms r
    by (auto simp: googleOauthCallback_def or_throw_def first_offending_def offending_def field_def
        split: if_splits)
qed

lemma azureOauthCallback_fields:
  assumes "js_get request ''body'' = Inr (Obj params)"
    and "first_offending [(''code'', False, ''string''), (''redirect_url'', False, ''string'')]
           (Obj params) = Some name"
  shows "azureOauthCallback env request w =
     handleError env (Str (name @ '' must be a string'')) ''bad params'' w"
proof -
  have r: "request \<noteq> Undefined"
    using assms(1) by (rule js_get_Inr_defined)
  show ?thesis
    using assms r
    by (auto simp: azureOauthCallback_def or_throw_def first_offending_def offending_def field_def
        split: if_splits)
qed

text \<open>
  C3, as the code has it.  On every route, a request whose body is an object in which a
  documented field is missing or of the wrong type is answered with the bad-parameter
  error that names the first such field (on the password route \<^verbatim>\<open>required\<close> for a missing
  field), and neither the OAuth token endpoint nor the user store has been called.  The
  same holds for an undefined request on the routes served without a verified token, and
  on the password route for a body that is missing or not an object.  The recheck route
  documents no field and validates none.
\<close>

theorem bad_params_before_remote_calls:
  assumes "(path, method, route) \<in> set routes"
  shows "(js_get request ''body'' = Inr (Obj params)
            \<and> first_offending (jsonBody route) (Obj params) = Some name \<longrightarrow>
          bad_params route env request w
            (name @ (if path = [] \<and> field (Obj params) name = Undefined
                     then '' required'' else '' must be a string'')))
       \<and> (ignore_jwt_auth route \<and> request = Undefined \<longrightarrow>
          bad_params route env request w ''request must be defined'')
       \<and> (path = [] \<and> js_get request ''body'' = Inr body
            \<and> (typeof body \<noteq> ''object'' \<or> \<not> truthy body) \<longrightarrow>
          bad_params route env request w ''jsonBody required'')"
  using assms
proof (cases rule: routes_cases)
  case password
  have b: "js_get request ''body'' = Inr body \<Longrightarrow> typeof body \<noteq> ''object'' \<or> \<not> truthy body \<Longrightarrow>
      authChallenge env request w = handleError env (Str ''jsonBody required'') ''bad params'' w"
    using js_get_Inr_defined [of request "''body''" body]
    by (simp add: authChallenge_def or_throw_def del: js_get.simps)
  show ?thesis
    unfolding password
    by (intro conjI impI bad_paramsI; (elim conjE)?)
      (simp_all add: password authChallenge_fields b, simp add: authChallenge_def)
next
  case recheck
  then show ?thesis
    by (simp add: first_offending_def)
next
  case google
  show ?thesis
    unfolding google
    by (intro conjI impI bad_paramsI; (elim conjE)?)
      (simp_all add: google googleOauthCallback_fields, simp add: googleOauthCallback_def)
next
  case azure
  show ?thesis
    unfolding azure
    by (intro conjI impI bad_paramsI; (elim conjE)?)
      (simp_all add: azure azureOauthCallback_fields, simp add: azureOauthCallback_def)
qed

theorem bad_params_before_remote_calls_witness:
  "fst (authChallenge example_env
          (Obj [(''body'', Obj [(''username'', Str ''bob@x.com'')])]) example_world) =
     Inr (Obj [(''error'', Str ''password required''), (''type'', Str ''bad params'')])
   \<and> remote_calls (snd (authChallenge example_env
          (Obj [(''body'', Obj [(''username'', Str ''bob@x.com'')])]) example_world)) = []
   \<and> fst (googleOauthCallback example_env
          (Obj [(''body'', Obj [(''code'', Num 7), (''redirect_url'', Bool True)])]) example_world) =
     Inr (Obj [(''error'', Str ''code must be a string''), (''type'', Str ''bad params'')])
   \<and> remote_calls (snd (googleOauthCallback example_env
          (Obj [(''body'', Obj [(''code'', Num 7), (''redirect_url'', Bool True)])]) example_world)) = []
   \<and> fst (azureOauthCallback example_env Undefined example_world) =
     Inr (Obj [(''error'', Str ''request must be defined''), (''type'', Str ''bad params'')])
   \<and> fst (authChallenge example_env (Obj [(''body'', Str ''username=bob'')]) example_world) =
     Inr (Obj [(''error'', Str ''jsonBody required''), (''type'', Str ''bad params'')])"
proof -
  let ?password = "\<lparr> ignore_jwt_auth = True,
                     desc = ''attempts to authenticate a user'',
                     jsonBody = [(''username'', False, ''string''), (''password'', False, ''string'')],
                     fn = authChallenge \<rparr> :: user_table route"
  let ?google = "\<lparr> ignore_jwt_auth = True,
                   desc = ''logs in via google oauth'',
                   jsonBody = [(''code'', False, ''string''), (''redirect_url'', False, ''string'')],
                   fn = googleOauthCallback \<rparr> :: user_table route"
  let ?azure = "\<lparr> ignore_jwt_auth = True,
                  desc = ''logs in via azure oauth'',
                  jsonBody = [(''code'', False, ''string''), (''redirect_url'', False, ''string'')],
                  fn = azureOauthCallback \<rparr> :: user_table route"
  have p: "([], ''post'', ?password) \<in> set routes"
    and g: "(''google_callback'', ''post'', ?google) \<in> set routes"
    and a: "(''azure_callback'', ''post'', ?azure) \<in> set routes"
    by (simp_all add: routes_def)
  have q: "remote_calls example_world = []"
    by (simp add: remote_calls_def example_world_def)
  have "bad_params ?password example_env
          (Obj [(''body'', Obj [(''username'', Str ''bob@x.com'')])]) example_world
          ''password required''"
    using bad_params_before_remote_calls [OF p,
        of "Obj [(''body'', Obj [(''username'', Str ''bob@x.com'')])]"
           "[(''username'', Str ''bob@x.com'')]" "''password''"]
    by (simp add: first_offending_def offending_def field_def)
  moreover have "bad_params ?google example_env
          (Obj [(''body'', Obj [(''code'', Num 7), (''redirect_url'', Bool True)])]) example_world
          ''code must be a string''"
    using bad_params_before_remote_calls [OF g,
        of "Obj [(''body'', Obj [(''code'', Num 7), (''redirect_url'', Bool True)])]"
           "[(''code'', Num 7), (''redirect_url'', Bool True)]" "''code''"]
    by (simp add: first_offending_def offending_def field_def)
  moreover have "bad_params ?azure example_env Undefined example_world ''request must be defined''"
    using bad_params_before_remote_calls [OF a, of Undefined]
    by simp
  moreover have "bad_params ?password example_env (Obj [(''body'', Str ''username=bob'')])
          example_world ''jsonBody required''"
    using bad_params_before_remote_calls [OF p, of "Obj [(''body'', Str ''username=bob'')]"
        _ _ _ _ "Str ''username=bob''"]
    by simp
  ultimately show ?thesis
    by (simp add: bad_params_def q)
qed

text \<open>
  C3 as stated fails on the recheck route: a request whose verified payload lacks
  \<^verbatim>\<open>uEmail\<close> is not answered with a bad-parameter error; the missing email surfaces where
  it is lowercased, as an error tagged \<^verbatim>\<open>authenticateUser\<close>.
\<close>

theorem jwtCheck_missing_uEmail:
  "fst (jwtCheck example_env
          (Obj [(''jwtPayload'', Obj [(''data'', Obj [(''cId'', Str ''C1'')])]),
                (''normalizedHeaders'', Obj [(''jwt'', Str ''prior.session.token'')])])
          example_world) =
     Inr (Obj [(''error'', TypeError ''Cannot read properties of undefined (reading toLowerCase)''),
               (''type'', Str ''authenticateUser'')])"
  by (simp add: controller_defs example_defs TypeError_def)



section \<open>Normal return\<close>

lemma newJWT_returns:
  assumes "collaborators_return env s" "\<not> nullish user"
  shows "\<exists>token w2. newJWT env Undefined customerId user w = (Inr token, w2)"
proof -
  obtain token where
    "sign env (Obj [(''data'', Obj [(''cId'', customerId), (''uEmail'', field user ''email''),
        (''u_cId'', field user ''customer_id'')])])
       (JWT_SECRET env) JWT_VALID_SECONDS (clock w) = Inr token"
    using assms(1) unfolding collaborators_return_def by blast
  then show ?thesis
    using assms(2) by (simp add: newJWT_def or_throw_def js_get_field)
qed

lemma authenticateUser_returns:
  assumes "collaborators_return env (store w)" "map_of fs ''previousJwt'' = None"
  shows "normal_return env (authenticateUser env (Obj fs) w)"
proof (cases "toLowerCase (field (Obj fs) ''userEmail'')")
  case (Inl e)
  then show ?thesis
    by (simp add: authenticateUser_def or_throw_def field_def)
next
  case (Inr key)
  obtain res s where g: "getUser env (store w) key (field (Obj fs) ''password'') = (res, s)"
    by (cases "getUser env (store w) key (field (Obj fs) ''password'')")
  show ?thesis
  proof (cases res)
    case (Inl error)
    then show ?thesis
      using Inr g by (simp add: authenticateUser_def or_throw_def field_def)
  next
    case user: (Inr user)
    have "\<not> nullish user"
      using assms(1) g user unfolding collaborators_return_def by blast
    then obtain token w2 where
      "newJWT env Undefined (field (Obj fs) ''customerId'') user
         (emit (GetUser key (field (Obj fs) ''password'')) (w\<lparr>store := s\<rparr>)) = (Inr token, w2)"
      using newJWT_returns [OF assms(1)] by blast
    then show ?thesis
      using Inr g user assms(2)
      by (simp add: authenticateUser_def or_throw_def field_def normal_return_def is_AuthResult_def)
  qed
qed

lemma authChallenge_returns:
  assumes "collaborators_return env (store w)"
    and "request_in_contract []
           [(''username'', False, ''string''), (''password'', False, ''string'')] request"
  shows "normal_return env (authChallenge env request w)"
proof (cases "request = Undefined")
  case True
  then show ?thesis by (simp add: authChallenge_def)
next
  case False
  then have n: "\<not> nullish request"
    and h: "valid_body [(''username'', False, ''string''), (''password'', False, ''string'')]
              (field request ''body'') \<Longrightarrow> \<not> nullish (field request ''normalizedHeaders'')"
    using assms(2) by (auto simp: request_in_contract_def nullish_def)
  show ?thesis
  proof (cases "valid_body [(''username'', False, ''string''), (''password'', False, ''string'')]
              (field request ''body'')")
    case True
    then obtain params where p: "field request ''body'' = Obj params"
      by (cases "field request ''body''") (simp_all add: valid_body_def)
    from True p have "\<exists>u. field (Obj params) ''username'' = Str u"
      and "\<exists>u. field (Obj params) ''password'' = Str u"
      by (auto simp: valid_body_def first_offending_def offending_def split: if_splits)
    then show ?thesis
      using False n p h [OF True] assms(1)
      by (auto simp: authChallenge_def or_throw_def js_get_field
          intro!: authenticateUser_returns simp del: js_get.simps)
  next
    case invalid: False
    show ?thesis
    proof (cases "typeof (field request ''body'') \<noteq> ''object'' \<or> \<not> truthy (field request ''body'')")
      case True
      then show ?thesis
        using False n by (auto simp: authChallenge_def or_throw_def js_get_field)
    next
      case False
      then obtain params where p: "field request ''body'' = Obj params"
        by (cases "field request ''body''") simp_all
      with invalid obtain name where
        "first_offending [(''username'', False, ''string''), (''password'', False, ''string'')]
           (Obj params) = Some name"
        by (auto simp: valid_body_def)
      moreover have "js_get request ''body'' = Inr (Obj params)"
        using n p by (simp add: js_get_field)
      ultimately show ?thesis
        by (simp add: authChallenge_fields)
    qed
  qed
qed

lemma jwtCheck_returns:
  assumes "collaborators_return env (store w)"
    and "request_in_contract ''jwt_check'' [] request"
  shows "normal_return env (jwtCheck env request w)"
proof -
  have "\<not> nullish request"
    using assms(2) by (auto simp: request_in_contract_def nullish_def field_def)
  then show ?thesis
    using assms
    by (auto simp: jwtCheck_def or_throw_def js_get_field request_in_contract_def
        intro!: authenticateUser_returns)
qed

lemma exchange_returns:
  assumes "collaborators_return env s" "post env url body = Inr response"
  shows "\<not> nullish (field response ''data'') \<and> \<not> nullish response
      \<and> (\<exists>claims. decode env (field (field response ''data'') ''id_token'') = Inr claims
            \<and> \<not> nullish claims)"
  using assms unfolding collaborators_return_def
  by (fastforce simp: nullish_def field_def)

lemma googleOauthCallback_returns:
  assumes "collaborators_return env (store w)"
    and "request_in_contract ''google_callback''
           [(''code'', False, ''string''), (''redirect_url'', False, ''string'')] request"
  shows "normal_return env (googleOauthCallback env request w)"
proof (cases "request = Undefined")
  case True
  then show ?thesis by (simp add: googleOauthCallback_def)
next
  case False
  then have b: "\<not> nullish (field request ''body'')"
    using assms(2) by (simp add: request_in_contract_def)
  then have n: "\<not> nullish request"
    by (auto simp: nullish_def field_def)
  show ?thesis
    using False b n assms(1)
    by (auto simp: googleOauthCallback_def or_throw_def js_get_field Let_def
        split: sum.splits dest!: exchange_returns [OF assms(1)] intro!: authenticateUser_returns)
qed

lemma azureOauthCallback_returns:
  assumes "collaborators_return env (store w)"
    and "request_in_contract ''azure_callback''
           [(''code'', False, ''string''), (''redirect_url'', False, ''string'')] request"
  shows "normal_return env (azureOauthCallback env request w)"
proof (cases "request = Undefined")
  case True
  then show ?thesis by (simp add: azureOauthCallback_def)
next
  case False
  then have b: "\<not> nullish (field request ''body'')"
    using assms(2) by (simp add: request_in_contract_def)
  then have n: "\<not> nullish request"
    by (auto simp: nullish_def field_def)
  show ?thesis
    using False b n assms(1)
    by (auto simp: azureOauthCallback_def or_throw_def js_get_field Let_def
        split: sum.splits dest!: exchange_returns [OF assms(1)] intro!: authenticateUser_returns)
qed

lemma example_collaborators_return: "collaborators_return example_env (store example_world)"
  unfolding collaborators_return_def
proof (intro conjI allI impI)
  fix email password user s'
  assume "getUser example_env (store example_world) email password = (Inr user, s')"
  then show "\<not> nullish user"
    by (auto simp: example_defs split: jsval.splits if_splits)
next
  fix payload expiresIn now
  show "\<exists>token. sign example_env payload (JWT_SECRET example_env) expiresIn now = Inr token"
    by (simp add: example_defs)
next
  fix url body response
  assume "post example_env url body = Inr response"
  then have "response = Obj [(''data'', Obj [(''id_token'', Str ''google-id-token'')])]
      \<or> response = Obj [(''data'', Obj [(''id_token'', Str ''azure-id-token'')])]"
    by (auto simp: example_env_def example_post_def split: if_splits)
  then show "\<not> nullish (field response ''data'')"
    and "\<exists>claims. decode example_env (field (field response ''data'') ''id_token'') = Inr claims
           \<and> \<not> nullish claims"
    by (auto simp: field_def example_env_def example_decode_def)
qed

text \<open>
  C4, as the code has it.  On every route, a request that is within what the route relies
  on, served by collaborators that return what the controller relies on, is answered by
  a normal return: a successful response or a reportable error, never a thrown value.
  This covers the undefined request on the password and OAuth routes, and on the password
  route a request (not \<^verbatim>\<open>null\<close>) whose body is missing, is no object or fails validation.
\<close>

theorem entry_points_return:
  assumes "(path, method, route) \<in> set routes"
    and "collaborators_return env (store w)"
    and "request_in_contract path (jsonBody route) request"
  shows "normal_return env (fn route env request w)"
  using assms(1)
proof (cases rule: routes_cases)
  case password
  then show ?thesis
    using assms(2,3) by (simp add: authChallenge_returns)
next
  case recheck
  then show ?thesis
    using assms(2,3) by (simp add: jwtCheck_returns)
next
  case google
  then show ?thesis
    using assms(2,3) by (simp add: googleOauthCallback_returns)
next
  case azure
  then show ?thesis
    using assms(2,3) by (simp add: azureOauthCallback_returns)
qed

theorem entry_points_return_witness:
  "collaborators_return example_env (store example_world)
   \<and> request_in_contract [] [(''username'', False, ''string''), (''password'', False, ''string'')]
       login_request
   \<and> normal_return example_env (authChallenge example_env login_request example_world)
   \<and> request_in_contract [] [(''username'', False, ''string''), (''password'', False, ''string'')]
       (Obj [])
   \<and> normal_return example_env (authChallenge example_env (Obj []) example_world)
   \<and> request_in_contract ''jwt_check'' [] recheck_request
   \<and> normal_return example_env (jwtCheck example_env recheck_request example_world)
   \<and> request_in_contract ''google_callback''
       [(''code'', False, ''string''), (''redirect_url'', False, ''string'')] (oauth_request ''good'')
   \<and> normal_return example_env
       (googleOauthCallback example_env (oauth_request ''good'') example_world)
   \<and> request_in_contract ''azure_callback''
       [(''code'', False, ''string''), (''redirect_url'', False, ''string'')] Undefined
   \<and> normal_return example_env (azureOauthCallback example_env Undefined example_world)"
proof -
  let ?password = "\<lparr> ignore_jwt_auth = True,
                     desc = ''attempts to authenticate a user'',
                     jsonBody = [(''username'', False, ''string''), (''password'', False, ''string'')],
                     fn = authChallenge \<rparr> :: user_table route"
  let ?recheck = "\<lparr> ignore_jwt_auth = False,
                    desc = ''checks for authentic jwt'',
                    jsonBody = [],
                    fn = jwtCheck \<rparr> :: user_table route"
  let ?google = "\<lparr> ignore_jwt_auth = True,
                   desc = ''logs in via google oauth'',
                   jsonBody = [(''code'', False, ''string''), (''redirect_url'', False, ''string'')],
                   fn = googleOauthCallback \<rparr> :: user_table route"
  let ?azure = "\<lparr> ignore_jwt_auth = True,
                  desc = ''logs in via azure oauth'',
                  jsonBody = [(''code'', False, ''string''), (''redirect_url'', False, ''string'')],
                  fn = azureOauthCallback \<rparr> :: user_table route"
  have p: "([], ''post'', ?password) \<in> set routes"
    and c: "(''jwt_check'', ''get'', ?recheck) \<in> set routes"
    and g: "(''google_callback'', ''post'', ?google) \<in> set routes"
    and a: "(''azure_callback'', ''post'', ?azure) \<in> set routes"
    by (simp_all add: routes_def)
  have 1: "request_in_contract [] (jsonBody ?password) login_request"
    by (simp add: request_in_contract_def login_request_def field_def)
  have 2: "request_in_contract [] (jsonBody ?password) (Obj [])"
    by (simp add: request_in_contract_def valid_body_def field_def)
  have 3: "request_in_contract ''jwt_check'' (jsonBody ?recheck) recheck_request"
    by (simp add: request_in_contract_def recheck_request_def field_def)
  have 4: "request_in_contract ''google_callback'' (jsonBody ?google) (oauth_request ''good'')"
    by (simp add: request_in_contract_def oauth_request_def field_def)
  have 5: "request_in_contract ''azure_callback'' (jsonBody ?azure) Undefined"
    by (simp add: request_in_contract_def)
  show ?thesis
    using example_collaborators_return 1 2 3 4 5
      entry_points_return [OF p example_collaborators_return 1]
      entry_points_return [OF p example_collaborators_return 2]
      entry_points_return [OF c example_collaborators_return 3]
      entry_points_return [OF g example_collaborators_return 4]
      entry_points_return [OF a example_collaborators_return 5]
    by simp
qed

text \<open>
  C4 as stated fails: on the recheck route a request without a verified payload makes
  \<^verbatim>\<open>jwtCheck\<close> throw, and on an OAuth route a request without a body makes the callback
  throw (its promise is rejected).
\<close>

theorem entry_points_throw:
  "fst (jwtCheck example_env
          (Obj [(''normalizedHeaders'', Obj [(''jwt'', Str ''prior.session.token'')])])
          example_world) =
     Inl (TypeError ''Cannot read properties of undefined (reading data)'')
   \<and> fst (googleOauthCallback example_env (Obj []) example_world) =
     Inl (TypeError ''Cannot read properties of undefined (reading code)'')"
  by (simp add: controller_defs example_defs TypeError_def)


end
